theory Spec2Isabelle
  imports Complex_Main
begin

section \<open>JavaScript numbers\<close>

text \<open>
  A JavaScript number is an IEEE 754 binary64 value. \<open>Num x\<close> is the finite double
  whose value is the real \<open>x\<close>, and \<open>NaN\<close>, \<open>PInf\<close> and \<open>NInf\<close> are the three
  special values; the sign of zero is not modelled. \<open>NaN\<close> is what \<^verbatim>\<open>parseFloat\<close>
  returns for an empty or non-numeric field, and what arithmetic on an
  \<^verbatim>\<open>Invalid Date\<close> produces.
\<close>

datatype jsnum = NaN | PInf | NInf | Num real

text \<open>\<^verbatim>\<open>!x\<close> on a number: true for \<^verbatim>\<open>NaN\<close> and for zero.\<close>

fun js_not :: "jsnum \<Rightarrow> bool" where
  "js_not NaN = True"
| "js_not (Num x) = (x = 0)"
| "js_not PInf = False"
| "js_not NInf = False"

text \<open>\<^verbatim>\<open>a < b\<close> and \<^verbatim>\<open>a <= b\<close>: false as soon as one side is \<^verbatim>\<open>NaN\<close>.\<close>

fun js_lt :: "jsnum \<Rightarrow> jsnum \<Rightarrow> bool" where
  "js_lt NaN b = False"
| "js_lt a NaN = False"
| "js_lt (Num x) (Num y) = (x < y)"
| "js_lt a NInf = False"
| "js_lt NInf b = True"
| "js_lt PInf b = False"
| "js_lt (Num x) PInf = True"

fun js_le :: "jsnum \<Rightarrow> jsnum \<Rightarrow> bool" where
  "js_le NaN b = False"
| "js_le a NaN = False"
| "js_le (Num x) (Num y) = (x \<le> y)"
| "js_le NInf b = True"
| "js_le a PInf = True"
| "js_le PInf b = False"
| "js_le (Num x) NInf = False"

section \<open>Rounding to binary64\<close>

text \<open>
  Every arithmetic operation returns its exact result rounded to the nearest double, a
  tie going to the even significand. \<open>round_even\<close> rounds a real to the nearest
  integer in that way. \<open>quantum x\<close> is the spacing of the doubles around \<open>x\<close>: 52
  binary places below the leading bit of \<open>x\<close>, and never below that of the smallest
  normal number, so that the subnormal numbers are evenly spaced. A result rounded to
  \<open>huge\<close>, 2 to the power 1024, or beyond has overflowed, and is an infinity.
\<close>

definition round_even :: "real \<Rightarrow> int" where
  "round_even z =
     (let f = \<lfloor>z\<rfloor>; d = z - real_of_int f
      in if d < 1 / 2 then f else if 1 / 2 < d then f + 1 else if even f then f else f + 1)"

definition huge :: real where
  "huge = 2 ^ 1024"

text \<open>
  \<open>tiny\<close> is the smallest normal double. From there up the doubles have 53 significant
  bits, and rounding moves a number by at most one part in 2 to the power 53.
\<close>

definition tiny :: real where
  "tiny = 2 powi (- 1022)"

definition quantum :: "real \<Rightarrow> real" where
  "quantum x = 2 powi (max \<lfloor>log 2 \<bar>x\<bar>\<rfloor> (- 1022) - 52)"

definition fl64 :: "real \<Rightarrow> jsnum" where
  "fl64 x =
     (if x = 0 then Num 0
      else
        let y = real_of_int (round_even (x / quantum x)) * quantum x
        in if huge \<le> \<bar>y\<bar> then (if 0 < x then PInf else NInf) else Num y)"

section \<open>Arithmetic\<close>

text \<open>Unary minus, \<^verbatim>\<open>a + b\<close> and \<^verbatim>\<open>a - b\<close>.\<close>

fun js_neg :: "jsnum \<Rightarrow> jsnum" where
  "js_neg NaN = NaN"
| "js_neg PInf = NInf"
| "js_neg NInf = PInf"
| "js_neg (Num x) = Num (- x)"

fun js_add :: "jsnum \<Rightarrow> jsnum \<Rightarrow> jsnum" where
  "js_add NaN b = NaN"
| "js_add a NaN = NaN"
| "js_add (Num x) (Num y) = fl64 (x + y)"
| "js_add PInf NInf = NaN"
| "js_add NInf PInf = NaN"
| "js_add PInf b = PInf"
| "js_add NInf b = NInf"
| "js_add (Num x) PInf = PInf"
| "js_add (Num x) NInf = NInf"

definition js_sub :: "jsnum \<Rightarrow> jsnum \<Rightarrow> jsnum" where
  "js_sub a b = js_add a (js_neg b)"

text \<open>\<^verbatim>\<open>a * b\<close>: infinity times zero is \<^verbatim>\<open>NaN\<close>.\<close>

fun js_mul :: "jsnum \<Rightarrow> jsnum \<Rightarrow> jsnum" where
  "js_mul NaN b = NaN"
| "js_mul a NaN = NaN"
| "js_mul (Num x) (Num y) = fl64 (x * y)"
| "js_mul PInf (Num y) = (if y = 0 then NaN else if 0 < y then PInf else NInf)"
| "js_mul NInf (Num y) = (if y = 0 then NaN else if 0 < y then NInf else PInf)"
| "js_mul (Num x) PInf = (if x = 0 then NaN else if 0 < x then PInf else NInf)"
| "js_mul (Num x) NInf = (if x = 0 then NaN else if 0 < x then NInf else PInf)"
| "js_mul PInf PInf = PInf"
| "js_mul PInf NInf = NInf"
| "js_mul NInf PInf = NInf"
| "js_mul NInf NInf = PInf"

text \<open>
  \<^verbatim>\<open>a / b\<close>. A zero divisor is taken as \<^verbatim>\<open>+0\<close>; the scripts only divide by the
  literals 100 and 30.
\<close>

fun js_div :: "jsnum \<Rightarrow> jsnum \<Rightarrow> jsnum" where
  "js_div NaN b = NaN"
| "js_div a NaN = NaN"
| "js_div (Num x) (Num y) =
     (if y \<noteq> 0 then fl64 (x / y) else if x = 0 then NaN else if 0 < x then PInf else NInf)"
| "js_div PInf (Num y) = (if 0 \<le> y then PInf else NInf)"
| "js_div NInf (Num y) = (if 0 \<le> y then NInf else PInf)"
| "js_div (Num x) b = Num 0"
| "js_div a b = NaN"

text \<open>
  \<^verbatim>\<open>Math.pow(b, e)\<close>, case by case as ECMAScript orders them: a \<^verbatim>\<open>NaN\<close> exponent, a
  zero exponent, a \<^verbatim>\<open>NaN\<close> base, an infinite base, a zero base, an infinite exponent, a
  negative base with a fractional exponent, and at last the power of two finite
  numbers. ECMAScript leaves the accuracy of that last case to the implementation; the
  model takes the real power rounded to the nearest double, which is the exact power
  whenever that is a double.
\<close>

fun js_pow :: "jsnum \<Rightarrow> jsnum \<Rightarrow> jsnum" where
  "js_pow b NaN = NaN"
| "js_pow b (Num y) =
     (if y = 0 then Num 1
      else case b of
        NaN \<Rightarrow> NaN
      | PInf \<Rightarrow> (if 0 < y then PInf else Num 0)
      | NInf \<Rightarrow>
          (if 0 < y then (if real_of_int \<lfloor>y\<rfloor> = y \<and> odd \<lfloor>y\<rfloor> then NInf else PInf)
           else Num 0)
      | Num x \<Rightarrow>
          (if x = 0 then (if 0 < y then Num 0 else PInf)
           else if 0 < x then fl64 (x powr y)
           else if real_of_int \<lfloor>y\<rfloor> = y then fl64 (x powi \<lfloor>y\<rfloor>)
           else NaN))"
| "js_pow b PInf =
     (case b of
        NaN \<Rightarrow> NaN
      | PInf \<Rightarrow> PInf
      | NInf \<Rightarrow> PInf
      | Num x \<Rightarrow> (if 1 < \<bar>x\<bar> then PInf else if \<bar>x\<bar> = 1 then NaN else Num 0))"
| "js_pow b NInf =
     (case b of
        NaN \<Rightarrow> NaN
      | PInf \<Rightarrow> Num 0
      | NInf \<Rightarrow> Num 0
      | Num x \<Rightarrow> (if 1 < \<bar>x\<bar> then Num 0 else if \<bar>x\<bar> = 1 then NaN else PInf))"

text \<open>
  \<^verbatim>\<open>Math.round(a)\<close>: the nearest integer, a tie going up. The result is exact: a
  double with a fractional part is below 2 to the power 52, and the integers up to there
  are doubles.
\<close>

fun js_round :: "jsnum \<Rightarrow> jsnum" where
  "js_round (Num x) = Num (real_of_int \<lfloor>x + 1 / 2\<rfloor>)"
| "js_round a = a"

text \<open>\<^verbatim>\<open>a || b\<close> on numbers: \<open>b\<close> when \<open>a\<close> is \<^verbatim>\<open>NaN\<close> or zero.\<close>

definition js_or :: "jsnum \<Rightarrow> jsnum \<Rightarrow> jsnum" where
  "js_or a b = (if js_not a then b else a)"

section \<open>Dates\<close>

text \<open>
  \<open>jsdate\<close> is the \<^verbatim>\<open>Date\<close> object that \<^verbatim>\<open>new Date(s)\<close> builds from a well-formed
  date string \<open>s\<close>, as the getters show it: \<^verbatim>\<open>getFullYear()\<close>, \<^verbatim>\<open>getMonth()\<close> (the
  month index, 0 to 11) and \<^verbatim>\<open>getDate()\<close> (the day of the month). A date string as a
  form field or a record field holds it is a \<open>jsdate option\<close>: \<open>None\<close> is the empty
  string \<^verbatim>\<open>''\<close>, for which \<^verbatim>\<open>new Date\<close> gives an \<^verbatim>\<open>Invalid Date\<close>. The getters
  read the local time of a date parsed as midnight UTC, so behind UTC they show the day
  before the one the string names; a \<open>jsdate\<close> holds what the getters show.
\<close>

record jsdate =
  getFullYear :: int
  getMonth :: int
  getDate :: int


text \<open>
  \<^verbatim>\<open>a < b\<close> on two \<^verbatim>\<open>Date\<close> objects compares their time values; for calendar dates
  that is the lexicographic order on year, month and day.
\<close>

definition date_before :: "jsdate \<Rightarrow> jsdate \<Rightarrow> bool" where
  "date_before a b \<longleftrightarrow>
     getFullYear a < getFullYear b
     \<or> (getFullYear a = getFullYear b
        \<and> (getMonth a < getMonth b \<or> (getMonth a = getMonth b \<and> getDate a < getDate b)))"

text \<open>\<^verbatim>\<open>new Date(a) < new Date(b)\<close> on two date strings; an invalid date compares false.\<close>

fun date_lt :: "jsdate option \<Rightarrow> jsdate option \<Rightarrow> bool" where
  "date_lt (Some a) (Some b) = date_before a b"
| "date_lt a b = False"

text \<open>
  \<^verbatim>\<open>monthsBetween(startDateStr, endDateStr)\<close>, the same function in every variant of
  the script. With an invalid date the guard is false and the getters return
  \<^verbatim>\<open>NaN\<close>, so the total is \<^verbatim>\<open>NaN\<close>. The getters return integers, a year within
  275760 of 0, so the differences and the whole-month count are exact; the division by
  30 and the final addition round.
\<close>

fun monthsBetween :: "jsdate option \<Rightarrow> jsdate option \<Rightarrow> jsnum" where
  "monthsBetween (Some start) (Some end) =
     (if date_before end start then Num 0
      else
        let years = getFullYear end - getFullYear start;
            months = getMonth end - getMonth start;
            totalMonths = years * 12 + months;
            dayDiff = getDate end - getDate start
        in js_add (Num (real_of_int totalMonths))
             (js_div (Num (real_of_int dayDiff)) (Num 30)))"
| "monthsBetween startDateStr endDateStr = NaN"

section \<open>The interest formulas\<close>

text \<open>
  The four constants that every \<^verbatim>\<open>calculateInterest\<close> computes, as expressions of the
  record's principal, its rate in percent per month, and the month count:
  \<^verbatim>\<open>principal * (rate / 100) * months\<close>,
  \<^verbatim>\<open>principal * (Math.pow(1 + rate / 100, months) - 1)\<close>, and
  \<^verbatim>\<open>principal + interest\<close> for the two totals.
\<close>

definition simpleInterest_of :: "jsnum \<Rightarrow> jsnum \<Rightarrow> jsnum \<Rightarrow> jsnum" where
  "simpleInterest_of p r m = js_mul (js_mul p (js_div r (Num 100))) m"

definition compoundInterest_of :: "jsnum \<Rightarrow> jsnum \<Rightarrow> jsnum \<Rightarrow> jsnum" where
  "compoundInterest_of p r m =
     js_mul p (js_sub (js_pow (js_add (Num 1) (js_div r (Num 100))) m) (Num 1))"

definition total_of :: "jsnum \<Rightarrow> jsnum \<Rightarrow> jsnum" where
  "total_of p i = js_add p i"

text \<open>\<^verbatim>\<open>Math.round(a * 100) / 100\<close>, the rounding of the database-backed script.\<close>

definition round2 :: "jsnum \<Rightarrow> jsnum" where
  "round2 a = js_div (js_round (js_mul a (Num 100))) (Num 100)"

section \<open>The calculator on local storage\<close>

text \<open>
  The first script of \<^verbatim>\<open>script_new.js\<close>. An investment is the object that
  \<^verbatim>\<open>addInvestment\<close> builds; the calculator is the instance state, its history array
  (what \<^verbatim>\<open>saveHistory\<close> writes to local storage) and \<^verbatim>\<open>currentEditId\<close>
  (\<open>None\<close> is \<^verbatim>\<open>null\<close>). \<^verbatim>\<open>showModal(message, type)\<close> is returned as a value.
  The form holds the four values \<^verbatim>\<open>addInvestment\<close> reads from the page: the trimmed
  name, the two results of \<^verbatim>\<open>parseFloat\<close>, and the start date string.
\<close>

record investment =
  inv_id :: int
  name :: string
  principal :: jsnum
  rate :: jsnum
  startDate :: "jsdate option"
  endDate :: "jsdate option"
  months :: jsnum
  simpleInterest :: jsnum
  compoundInterest :: jsnum
  totalSimple :: jsnum
  totalCompound :: jsnum
  calculationDate :: string

record calculator =
  history :: "investment list"
  currentEditId :: "int option"

datatype modal_type = Error | Success | Info

datatype modal = Modal string modal_type

record form =
  name_input :: string
  principal_input :: jsnum
  rate_input :: jsnum
  startDate_input :: "jsdate option"

text \<open>\<^verbatim>\<open>addToHistory\<close>: newest first, at most 50 entries.\<close>

definition addToHistory :: "investment \<Rightarrow> calculator \<Rightarrow> calculator" where
  "addToHistory investment st =
     (let h = investment # history st
      in st\<lparr>history := (if length h > 50 then take 50 h else h)\<rparr>)"

text \<open>
  \<^verbatim>\<open>addInvestment\<close>; \<open>now\<close> is \<^verbatim>\<open>Date.now()\<close> and \<open>stamp\<close> is
  \<^verbatim>\<open>new Date().toLocaleString()\<close>.
\<close>

definition addInvestment :: "form \<Rightarrow> int \<Rightarrow> string \<Rightarrow> calculator \<Rightarrow> calculator \<times> modal" where
  "addInvestment f now stamp st =
     (if name_input f = [] then
        (st, Modal ''Please enter a name.'' Error)
      else if js_not (principal_input f) \<or> js_le (principal_input f) (Num 0) then
        (st, Modal ''Please enter a valid principal amount.'' Error)
      else if js_not (rate_input f) \<or> js_lt (rate_input f) (Num 0) then
        (st, Modal ''Please enter a valid interest rate (per month).'' Error)
      else if startDate_input f = None then
        (st, Modal ''Please select a start date.'' Error)
      else
        (addToHistory
           \<lparr>inv_id = now, name = name_input f, principal = principal_input f,
            rate = rate_input f, startDate = startDate_input f, endDate = None,
            months = Num 0, simpleInterest = Num 0, compoundInterest = Num 0,
            totalSimple = principal_input f, totalCompound = principal_input f,
            calculationDate = stamp\<rparr> st,
         Modal ''Investment added successfully! Add an ending date to calculate interest.''
           Success))"

text \<open>\<^verbatim>\<open>editInvestment(id)\<close> selects a record of the history for the edit dialog.\<close>

definition editInvestment :: "int \<Rightarrow> calculator \<Rightarrow> calculator" where
  "editInvestment i st =
     (case find (\<lambda>inv. inv_id inv = i) (history st) of
        None \<Rightarrow> st
      | Some investment \<Rightarrow> st\<lparr>currentEditId := Some i\<rparr>)"

text \<open>
  \<^verbatim>\<open>find\<close> returns a reference to the first matching element, and the assignments of
  \<^verbatim>\<open>calculateInterest\<close> go through it: the first match is updated in its place.
\<close>

fun update_first :: "('a \<Rightarrow> bool) \<Rightarrow> ('a \<Rightarrow> 'a) \<Rightarrow> 'a list \<Rightarrow> 'a list" where
  "update_first P f [] = []"
| "update_first P f (x # xs) = (if P x then f x # xs else x # update_first P f xs)"

text \<open>
  \<^verbatim>\<open>calculateInterest\<close>; \<open>endDate_input\<close> is the value of the end date field and
  \<open>stamp\<close> is \<^verbatim>\<open>new Date().toLocaleString()\<close>.
\<close>

definition calculateInterest :: "jsdate option \<Rightarrow> string \<Rightarrow> calculator \<Rightarrow> calculator \<times> modal" where
  "calculateInterest endDate_input stamp st =
     (if currentEditId st = None \<or> currentEditId st = Some 0 then
        (st, Modal ''No investment selected for editing.'' Error)
      else if endDate_input = None then
        (st, Modal ''Please select an ending date.'' Error)
      else
        case find (\<lambda>inv. Some (inv_id inv) = currentEditId st) (history st) of
          None \<Rightarrow> (st, Modal ''Investment not found.'' Error)
        | Some investment \<Rightarrow>
            if date_lt endDate_input (startDate investment) then
              (st, Modal ''Ending date must be on or after the start date.'' Error)
            else
              let m = monthsBetween (startDate investment) endDate_input
              in if js_le m (Num 0) then
                   (st, Modal ''The period must be at least part of a month.'' Error)
                 else
                   let si = simpleInterest_of (principal investment) (rate investment) m;
                       ci = compoundInterest_of (principal investment) (rate investment) m;
                       ts = total_of (principal investment) si;
                       tc = total_of (principal investment) ci
                   in (st\<lparr>history :=
                             update_first (\<lambda>inv. Some (inv_id inv) = currentEditId st)
                               (\<lambda>inv. inv\<lparr>endDate := endDate_input, months := m,
                                  simpleInterest := si, compoundInterest := ci,
                                  totalSimple := ts, totalCompound := tc,
                                  calculationDate := stamp\<rparr>)
                               (history st),
                           currentEditId := None\<rparr>,
                       Modal ''Interest calculated successfully!'' Success))"

text \<open>\<^verbatim>\<open>clearHistory\<close>, once the user has confirmed.\<close>

definition clearHistory :: "calculator \<Rightarrow> calculator" where
  "clearHistory st = st\<lparr>history := []\<rparr>"

section \<open>The two-step calculator\<close>

text \<open>
  The second script of \<^verbatim>\<open>script_new.js\<close> validates the same four fields in
  \<^verbatim>\<open>validateStepOne\<close>, which returns a boolean and shows a modal when it is false.
\<close>

definition validateStepOne :: "form \<Rightarrow> bool \<times> modal option" where
  "validateStepOne f =
     (if name_input f = [] then
        (False, Some (Modal ''Please enter a name.'' Error))
      else if js_not (principal_input f) \<or> js_le (principal_input f) (Num 0) then
        (False, Some (Modal ''Please enter a valid principal amount.'' Error))
      else if js_not (rate_input f) \<or> js_lt (rate_input f) (Num 0) then
        (False, Some (Modal ''Please enter a valid interest rate (per month).'' Error))
      else if startDate_input f = None then
        (False, Some (Modal ''Please select a start date.'' Error))
      else (True, None))"

section \<open>The calculator on the database\<close>

text \<open>
  \<^verbatim>\<open>static/script_db.js\<close> keeps the records on a server. \<^verbatim>\<open>addInvestment\<close> posts
  the new investment and \<^verbatim>\<open>calculateInterest\<close> puts the derived fields; the model
  returns the request that is sent. The server is outside the model: its answers are
  arguments of the functions. A \<open>row\<close> is a record as the server lists it, with the
  columns the script reads as numbers; the four derived columns hold what
  \<^verbatim>\<open>parseFloat\<close> makes of them, \<^verbatim>\<open>NaN\<close> for a null. The calculator is the history,
  the selection and the four numbers that the results panel shows.
\<close>

record db_form = form +
  interestType_input :: string

record db_investment = investment +
  interestType :: string

record row =
  row_id :: int
  row_principal :: jsnum
  row_rate :: jsnum
  start_date :: "jsdate option"
  simple_interest :: jsnum
  compound_interest :: jsnum
  total_simple :: jsnum
  total_compound :: jsnum

record results =
  res_simpleInterest :: jsnum
  res_compoundInterest :: jsnum
  res_totalSimple :: jsnum
  res_totalCompound :: jsnum

record db_calculator =
  db_history :: "row list"
  db_currentEditId :: "int option"
  db_shown :: results

record updateData =
  upd_endDate :: "jsdate option"
  upd_months :: jsnum
  upd_simpleInterest :: jsnum
  upd_compoundInterest :: jsnum
  upd_totalSimple :: jsnum
  upd_totalCompound :: jsnum
  upd_interestType :: string
  upd_calculationDate :: string

text \<open>
  What \<^verbatim>\<open>addInvestment\<close> does: it stops at a failed check, or posts the investment;
  \<open>stamp\<close> is \<^verbatim>\<open>new Date().toISOString()\<close>.
\<close>

datatype add_outcome = AddRejected modal | Post db_investment

definition addInvestment_db :: "db_form \<Rightarrow> int \<Rightarrow> string \<Rightarrow> add_outcome" where
  "addInvestment_db f now stamp =
     (if name_input f = [] then
        AddRejected (Modal ''Please enter a name.'' Error)
      else if js_not (principal_input f) \<or> js_le (principal_input f) (Num 0) then
        AddRejected (Modal ''Please enter a valid principal amount.'' Error)
      else if js_not (rate_input f) \<or> js_lt (rate_input f) (Num 0) then
        AddRejected (Modal ''Please enter a valid interest rate (per month).'' Error)
      else if startDate_input f = None then
        AddRejected (Modal ''Please select a start date.'' Error)
      else if interestType_input f = [] then
        AddRejected (Modal ''Please select an interest type.'' Error)
      else
        Post \<lparr>inv_id = now, name = name_input f, principal = principal_input f,
              rate = rate_input f, startDate = startDate_input f, endDate = None,
              months = Num 0, simpleInterest = Num 0, compoundInterest = Num 0,
              totalSimple = principal_input f, totalCompound = principal_input f,
              calculationDate = stamp, interestType = interestType_input f\<rparr>)"

text \<open>
  \<^verbatim>\<open>updateResultsForAllInvestments\<close> adds up the history and writes the four sums to
  the results panel.
\<close>

definition updateResultsForAllInvestments :: "row list \<Rightarrow> results" where
  "updateResultsForAllInvestments rows =
     \<lparr>res_simpleInterest =
        foldl (\<lambda>total inv. js_add total (js_or (simple_interest inv) (Num 0))) (Num 0) rows,
      res_compoundInterest =
        foldl (\<lambda>total inv. js_add total (js_or (compound_interest inv) (Num 0))) (Num 0) rows,
      res_totalSimple =
        foldl (\<lambda>total inv. js_add total (js_or (total_simple inv) (row_principal inv)))
          (Num 0) rows,
      res_totalCompound =
        foldl (\<lambda>total inv. js_add total (js_or (total_compound inv) (row_principal inv)))
          (Num 0) rows\<rparr>"

text \<open>
  \<^verbatim>\<open>loadHistory\<close> fetches the list: \<open>reply\<close> is the rows the server answers with, or
  the message of the error when the request fails, which \<^verbatim>\<open>loadHistory\<close> catches and
  shows. With the new rows it calls \<^verbatim>\<open>updateResultsForAllInvestments\<close>.
\<close>

definition loadHistory :: "string + row list \<Rightarrow> db_calculator \<Rightarrow> db_calculator \<times> modal option" where
  "loadHistory reply st =
     (case reply of
        Inl message \<Rightarrow> (st, Some (Modal (''Failed to load history: '' @ message) Error))
      | Inr rows \<Rightarrow>
          (st\<lparr>db_history := rows, db_shown := updateResultsForAllInvestments rows\<rparr>, None))"

text \<open>
  What \<^verbatim>\<open>calculateInterest\<close> does: it stops at a failed check, or puts \<open>updateData\<close>
  to the record \<^verbatim>\<open>currentEditId\<close>. \<open>response\<close> is the server's answer to the put:
  \<open>None\<close> when it is ok, otherwise the message of the error that is thrown, which the
  catch block shows. After an ok answer \<^verbatim>\<open>updateResults\<close> writes the four results to
  the panel, \<^verbatim>\<open>loadHistory\<close> reloads the history, and the selection is cleared.
\<close>

datatype calc_outcome =
    CalcRejected modal
  | PutFailed int updateData modal
  | PutDone int updateData results

definition calculateInterest_db ::
    "jsdate option \<Rightarrow> string \<Rightarrow> string \<Rightarrow> string option \<Rightarrow> string + row list
       \<Rightarrow> db_calculator \<Rightarrow> db_calculator \<times> calc_outcome" where
  "calculateInterest_db endDate_input interestType_select stamp response reply st =
     (if db_currentEditId st = None \<or> db_currentEditId st = Some 0 then
        (st, CalcRejected (Modal ''No investment selected for editing.'' Error))
      else if endDate_input = None then
        (st, CalcRejected (Modal ''Please select an ending date.'' Error))
      else
        case find (\<lambda>inv. Some (row_id inv) = db_currentEditId st) (db_history st) of
          None \<Rightarrow> (st, CalcRejected (Modal ''Investment not found.'' Error))
        | Some investment \<Rightarrow>
            if date_lt endDate_input (start_date investment) then
              (st, CalcRejected
                     (Modal ''Ending date must be on or after the start date.'' Error))
            else
              let m = round2 (monthsBetween (start_date investment) endDate_input)
              in if js_le m (Num 0) then
                   (st, CalcRejected
                          (Modal ''The period must be at least part of a month.'' Error))
                 else
                   let si = round2 (simpleInterest_of (row_principal investment)
                                      (row_rate investment) m);
                       ci = round2 (compoundInterest_of (row_principal investment)
                                      (row_rate investment) m);
                       ts = round2 (total_of (row_principal investment) si);
                       tc = round2 (total_of (row_principal investment) ci);
                       upd = \<lparr>upd_endDate = endDate_input, upd_months = m,
                              upd_simpleInterest = si, upd_compoundInterest = ci,
                              upd_totalSimple = ts, upd_totalCompound = tc,
                              upd_interestType = interestType_select,
                              upd_calculationDate = stamp\<rparr>;
                       res = \<lparr>res_simpleInterest = si, res_compoundInterest = ci,
                              res_totalSimple = ts, res_totalCompound = tc\<rparr>
                   in (case response of
                         Some message \<Rightarrow>
                           (st, PutFailed (row_id investment) upd
                                  (Modal (''Calculation error: '' @ message) Error))
                       | None \<Rightarrow>
                           ((fst (loadHistory reply (st\<lparr>db_shown := res\<rparr>)))
                              \<lparr>db_currentEditId := None\<rparr>,
                            PutDone (row_id investment) upd res)))"

text \<open>The body of the request that an outcome sent.\<close>

fun put_body :: "calc_outcome \<Rightarrow> updateData option" where
  "put_body (CalcRejected msg) = None"
| "put_body (PutFailed i upd msg) = Some upd"
| "put_body (PutDone i upd res) = Some upd"

section \<open>Derived fields\<close>

text \<open>
  A record before its calculation, as \<^verbatim>\<open>addInvestment\<close> builds it, and a record
  after it, as \<^verbatim>\<open>calculateInterest\<close> leaves it.
\<close>

definition derived_unset :: "investment \<Rightarrow> bool" where
  "derived_unset investment \<longleftrightarrow>
     endDate investment = None \<and> months investment = Num 0
     \<and> simpleInterest investment = Num 0 \<and> compoundInterest investment = Num 0
     \<and> totalSimple investment = principal investment \<and> totalCompound investment = principal investment"

definition derived_set :: "investment \<Rightarrow> bool" where
  "derived_set investment \<longleftrightarrow>
     endDate investment \<noteq> None
     \<and> months investment = monthsBetween (startDate investment) (endDate investment)
     \<and> simpleInterest investment = simpleInterest_of (principal investment) (rate investment) (months investment)
     \<and> compoundInterest investment = compoundInterest_of (principal investment) (rate investment) (months investment)
     \<and> totalSimple investment = total_of (principal investment) (simpleInterest investment)
     \<and> totalCompound investment = total_of (principal investment) (compoundInterest investment)"

text \<open>
  The states of the calculator: it starts with an empty history, and each handler takes
  it to the next state.
\<close>

inductive reachable :: "calculator \<Rightarrow> bool" where
  start: "reachable \<lparr>history = [], currentEditId = None\<rparr>"
| add: "reachable st \<Longrightarrow> reachable (fst (addInvestment f now stamp st))"
| edit: "reachable st \<Longrightarrow> reachable (editInvestment i st)"
| calc: "reachable st \<Longrightarrow> reachable (fst (calculateInterest e stamp st))"
| clear: "reachable st \<Longrightarrow> reachable (clearHistory st)"

section \<open>Facts about rounding\<close>

text \<open>
  The spacing of the doubles is positive, and a number of modest size has not
  overflowed.
\<close>

lemma quantum_pos: "0 < quantum x"
  by (simp add: quantum_def)

lemma below_huge: "\<bar>y\<bar> \<le> 2 ^ 1000 \<Longrightarrow> \<bar>y\<bar> < huge"
proof -
  assume "\<bar>y\<bar> \<le> 2 ^ 1000"
  also have "(2::real) ^ 1000 < 2 ^ 1024"
    by (rule power_strict_increasing) simp_all
  finally show ?thesis by (simp only: huge_def)
qed

text \<open>
  \<open>round_even\<close> returns the one integer within a half of its argument, the even one
  at a tie; it keeps the integers and the sign, and commutes with negation.
\<close>

lemma round_even_unique:
  assumes "real_of_int n - 1 / 2 < z" and "z < real_of_int n + 1 / 2"
  shows "round_even z = n"
proof -
  have "\<lfloor>z\<rfloor> = n \<or> \<lfloor>z\<rfloor> = n - 1"
    using assms by linarith
  then show ?thesis
  proof
    assume f: "\<lfloor>z\<rfloor> = n"
    then have "z - real_of_int n < 1 / 2" using assms by linarith
    with f show ?thesis by (simp add: round_even_def)
  next
    assume f: "\<lfloor>z\<rfloor> = n - 1"
    then have "1 / 2 < z - real_of_int (n - 1)" using assms by simp
    with f show ?thesis by (simp add: round_even_def Let_def)
  qed
qed

lemma round_even_of_int [simp]: "round_even (real_of_int n) = n"
  by (rule round_even_unique) simp_all

lemma round_even_close: "\<bar>real_of_int (round_even z) - z\<bar> \<le> 1 / 2"
proof -
  have "real_of_int \<lfloor>z\<rfloor> \<le> z" "z < real_of_int \<lfloor>z\<rfloor> + 1"
    by linarith+
  then show ?thesis
    unfolding round_even_def Let_def by (auto simp: abs_le_iff)
qed

lemma round_even_nonpos: "z \<le> 0 \<Longrightarrow> round_even z \<le> 0"
proof -
  assume z: "z \<le> 0"
  have "\<lfloor>z\<rfloor> \<le> 0" using z by linarith
  moreover have "\<lfloor>z\<rfloor> + 1 \<le> 0" if "1 / 2 \<le> z - real_of_int \<lfloor>z\<rfloor>"
    using that z by linarith
  ultimately show ?thesis
    unfolding round_even_def Let_def by auto
qed

lemma round_even_nonneg: "0 \<le> z \<Longrightarrow> 0 \<le> round_even z"
proof -
  assume z: "0 \<le> z"
  have "0 \<le> \<lfloor>z\<rfloor>" using z by linarith
  then show ?thesis
    unfolding round_even_def Let_def by auto
qed

lemma round_even_tie_down:
  assumes "z = real_of_int n + 1 / 2" and "even n"
  shows "round_even z = n"
proof -
  have "\<lfloor>z\<rfloor> = n" using assms(1) by linarith
  with assms show ?thesis by (simp add: round_even_def)
qed

lemma round_even_tie_up:
  assumes "z = real_of_int n - 1 / 2" and "even n"
  shows "round_even z = n"
proof -
  have "\<lfloor>z\<rfloor> = n - 1" using assms(1) by linarith
  with assms show ?thesis by (simp add: round_even_def)
qed

lemma round_even_uminus: "round_even (- z) = - round_even z"
proof (cases "z = real_of_int \<lfloor>z\<rfloor>")
  case True
  then have "round_even (- z) = round_even (real_of_int (- \<lfloor>z\<rfloor>))" by simp
  also have "\<dots> = - \<lfloor>z\<rfloor>" by (simp only: round_even_of_int)
  also have "\<lfloor>z\<rfloor> = round_even z"
    using True round_even_of_int [of "\<lfloor>z\<rfloor>"] by simp
  finally show ?thesis .
next
  case False
  then have f: "\<lfloor>- z\<rfloor> = - \<lfloor>z\<rfloor> - 1"
    by linarith
  have d: "- z - real_of_int (- \<lfloor>z\<rfloor> - 1) = 1 - (z - real_of_int \<lfloor>z\<rfloor>)"
    by simp
  show ?thesis
    unfolding round_even_def [of "- z"] round_even_def [of z] Let_def f d
    by auto
qed

text \<open>
  How to evaluate \<open>fl64\<close>: at a number between two powers of two it returns the
  multiple of the spacing that is nearest, or the even one of the two nearest at a tie;
  it keeps a number that is a double already, the integers below 2 to the power 53 among
  them.
\<close>

lemma floor_log2_eq:
  assumes "x \<noteq> 0" and "2 powi e \<le> \<bar>x\<bar>" and "\<bar>x\<bar> < 2 powi (e + 1)"
  shows "\<lfloor>log 2 \<bar>x\<bar>\<rfloor> = e"
proof -
  have "(2::real) powr real_of_int e = 2 powi e"
    by (simp add: powr_real_of_int')
  moreover have "(2::real) powr real_of_int (e + 1) = 2 powi (e + 1)"
    by (rule powr_real_of_int') simp_all
  ultimately have "2 powr real_of_int e \<le> \<bar>x\<bar> \<and> \<bar>x\<bar> < 2 powr real_of_int (e + 1)"
    using assms(2,3) by simp
  with assms(1) show ?thesis
    by (subst floor_log_eq_powr_iff) simp_all
qed

lemma fl64_round:
  assumes "x \<noteq> 0" and "2 powi e \<le> \<bar>x\<bar>" and "\<bar>x\<bar> < 2 powi (e + 1)"
    and "- 1022 \<le> e" and "e \<le> 900"
    and "real_of_int n - 1 / 2 < x / 2 powi (e - 52)"
    and "x / 2 powi (e - 52) < real_of_int n + 1 / 2"
    and "\<bar>n\<bar> \<le> 2 ^ 53"
  shows "fl64 x = Num (real_of_int n * 2 powi (e - 52))"
proof -
  have "\<lfloor>log 2 \<bar>x\<bar>\<rfloor> = e"
    using assms(1-3) by (rule floor_log2_eq)
  then have q: "quantum x = 2 powi (e - 52)"
    using assms(4) by (simp add: quantum_def max_def)
  have r: "round_even (x / 2 powi (e - 52)) = n"
    using assms(6,7) by (rule round_even_unique)
  have "real_of_int \<bar>n\<bar> \<le> 2 ^ 53"
    using assms(8) by (metis of_int_le_iff of_int_numeral of_int_power)
  then have "\<bar>real_of_int n * 2 powi (e - 52)\<bar> \<le> 2 ^ 53 * 2 powi (e - 52)"
    by (simp add: abs_mult mult_right_mono)
  also have "\<dots> = 2 powi (e + 1)"
    by (simp add: power_int_diff power_int_add)
  also have "\<dots> \<le> 2 powi 1000"
    using assms(5) by (intro power_int_increasing) simp_all
  finally have "\<bar>real_of_int n * 2 powi (e - 52)\<bar> < huge"
    by (intro below_huge) simp
  then show ?thesis
    using assms(1) by (simp add: fl64_def Let_def q r)
qed

lemma fl64_tie:
  assumes "x \<noteq> 0" and "2 powi e \<le> \<bar>x\<bar>" and "\<bar>x\<bar> < 2 powi (e + 1)"
    and "- 1022 \<le> e" and "e \<le> 900"
    and "x / 2 powi (e - 52) = real_of_int n + 1 / 2 \<or> x / 2 powi (e - 52) = real_of_int n - 1 / 2"
    and "even n" and "\<bar>n\<bar> \<le> 2 ^ 53"
  shows "fl64 x = Num (real_of_int n * 2 powi (e - 52))"
proof -
  have "\<lfloor>log 2 \<bar>x\<bar>\<rfloor> = e"
    using assms(1-3) by (rule floor_log2_eq)
  then have q: "quantum x = 2 powi (e - 52)"
    using assms(4) by (simp add: quantum_def max_def)
  have r: "round_even (x / 2 powi (e - 52)) = n"
    using assms(6,7) round_even_tie_down round_even_tie_up by blast
  have "real_of_int \<bar>n\<bar> \<le> 2 ^ 53"
    using assms(8) by (metis of_int_le_iff of_int_numeral of_int_power)
  then have "\<bar>real_of_int n * 2 powi (e - 52)\<bar> \<le> 2 ^ 53 * 2 powi (e - 52)"
    by (simp add: abs_mult mult_right_mono)
  also have "\<dots> = 2 powi (e + 1)"
    by (simp add: power_int_diff power_int_add)
  also have "\<dots> \<le> 2 powi 1000"
    using assms(5) by (intro power_int_increasing) simp_all
  finally have "\<bar>real_of_int n * 2 powi (e - 52)\<bar> < huge"
    by (intro below_huge) simp
  then show ?thesis
    using assms(1) by (simp add: fl64_def Let_def q r)
qed

lemma fl64_exact:
  assumes x: "x = real_of_int n * 2 powi k" and n: "\<bar>n\<bar> < 2 ^ 53" and k: "- 1074 \<le> k"
    and fin: "\<bar>x\<bar> < huge"
  shows "fl64 x = Num x"
proof (cases "x = 0")
  case True
  then show ?thesis by (simp add: fl64_def)
next
  case False
  define e where "e = max \<lfloor>log 2 \<bar>x\<bar>\<rfloor> (- 1022)"
  have le: "e - 52 \<le> k"
  proof (cases "\<lfloor>log 2 \<bar>x\<bar>\<rfloor> \<le> - 1022")
    case True
    then show ?thesis using k by (simp add: e_def max_def)
  next
    case False
    then have e: "e = \<lfloor>log 2 \<bar>x\<bar>\<rfloor>" by (simp add: e_def max_def)
    have "2 powr real_of_int e \<le> \<bar>x\<bar>"
      using \<open>x \<noteq> 0\<close> floor_log_eq_powr_iff [of "\<bar>x\<bar>" 2 e] e by simp
    then have "2 powi e \<le> \<bar>x\<bar>"
      by (simp add: powr_real_of_int')
    also have "\<bar>x\<bar> = real_of_int \<bar>n\<bar> * 2 powi k"
      by (simp add: x abs_mult)
    also have "\<dots> < 2 ^ 53 * 2 powi k"
    proof -
      have "real_of_int \<bar>n\<bar> < 2 ^ 53"
        using n by (metis of_int_less_iff of_int_numeral of_int_power)
      then show ?thesis by (intro mult_strict_right_mono) simp_all
    qed
    also have "\<dots> = 2 powi (53 + k)"
      by (simp add: power_int_add)
    finally have "e < 53 + k"
      using power_int_strict_increasing [of "53 + k" e "2::real"]
      by (smt (verit) power_int_increasing)
    then show ?thesis by simp
  qed
  have "x / 2 powi (e - 52) = real_of_int n * 2 powi (k - (e - 52))"
    by (simp add: x power_int_diff)
  also have "2 powi (k - (e - 52)) = (2::real) ^ nat (k - (e - 52))"
    using le by (simp add: power_int_def)
  also have "real_of_int n * 2 ^ nat (k - (e - 52)) = real_of_int (n * 2 ^ nat (k - (e - 52)))"
    by simp
  finally have "round_even (x / 2 powi (e - 52)) = n * 2 ^ nat (k - (e - 52))"
    by (simp only: round_even_of_int)
  then have "real_of_int (round_even (x / 2 powi (e - 52))) * 2 powi (e - 52)
      = real_of_int n * (2 ^ nat (k - (e - 52)) * 2 powi (e - 52))"
    by simp
  also have "2 ^ nat (k - (e - 52)) * 2 powi (e - 52) = (2::real) powi (k - (e - 52) + (e - 52))"
    using le by (subst power_int_add) (simp_all add: power_int_def)
  finally have "real_of_int (round_even (x / 2 powi (e - 52))) * 2 powi (e - 52) = x"
    by (simp add: x)
  moreover have "quantum x = 2 powi (e - 52)"
    by (simp add: quantum_def e_def)
  ultimately show ?thesis
    using False fin by (simp add: fl64_def Let_def)
qed

lemma fl64_exact_small:
  assumes x: "x = real_of_int n * 2 powi k" and n: "\<bar>n\<bar> < 2 ^ 53"
    and k: "- 1074 \<le> k" "k \<le> 900"
  shows "fl64 x = Num x"
proof -
  have "real_of_int \<bar>n\<bar> \<le> 2 ^ 53"
    using n by (metis less_imp_le of_int_le_iff of_int_numeral of_int_power)
  then have "\<bar>x\<bar> \<le> 2 ^ 53 * 2 powi k"
    by (simp add: x abs_mult mult_right_mono)
  also have "\<dots> = 2 powi (53 + k)"
    by (simp add: power_int_add)
  also have "\<dots> \<le> 2 powi 1000"
    using k(2) by (intro power_int_increasing) simp_all
  finally have "\<bar>x\<bar> < huge"
    by (intro below_huge) simp
  with x n k(1) show ?thesis
    by (rule fl64_exact)
qed

lemma fl64_of_int:
  assumes "\<bar>n\<bar> < 2 ^ 53"
  shows "fl64 (real_of_int n) = Num (real_of_int n)"
proof -
  have "\<bar>real_of_int n\<bar> < 2 ^ 53"
    using assms by (metis of_int_abs of_int_less_iff of_int_numeral of_int_power)
  also have "(2::real) ^ 53 \<le> 2 ^ 1000"
    by (rule power_increasing) simp_all
  finally have "\<bar>real_of_int n\<bar> < huge"
    by (intro below_huge) simp
  then show ?thesis
    using assms by (intro fl64_exact [where n = n and k = 0]) simp_all
qed

lemma fl64_0: "fl64 0 = Num 0"
  by (simp add: fl64_def)

lemma fl64_1: "fl64 1 = Num 1"
  using fl64_of_int [of 1] by simp

lemma fl64_numeral:
  assumes "(numeral w :: int) < 2 ^ 53"
  shows "fl64 (numeral w) = Num (numeral w)"
  using fl64_of_int [of "numeral w"] assms by simp

text \<open>Rounding keeps the sign, and commutes with negation.\<close>

lemma fl64_nonpos:
  assumes "x \<le> 0"
  shows "js_le (fl64 x) (Num 0)"
proof (cases "x = 0")
  case True
  then show ?thesis by (simp add: fl64_def)
next
  case False
  define q :: real where "q = quantum x"
  have "0 < q" by (simp add: q_def quantum_pos)
  then have "x / q \<le> 0"
    using assms by (simp add: divide_le_0_iff)
  then have "round_even (x / q) \<le> 0"
    by (rule round_even_nonpos)
  then have "real_of_int (round_even (x / q)) * q \<le> 0"
    using \<open>0 < q\<close> by (simp add: mult_le_0_iff)
  then show ?thesis
    using False assms by (simp add: fl64_def Let_def q_def [symmetric])
qed

lemma fl64_nonneg:
  assumes "0 \<le> x"
  shows "js_le (Num 0) (fl64 x)"
proof (cases "x = 0")
  case True
  then show ?thesis by (simp add: fl64_def)
next
  case False
  define q :: real where "q = quantum x"
  have "0 < q" by (simp add: q_def quantum_pos)
  then have "0 \<le> x / q"
    using assms by simp
  then have "0 \<le> round_even (x / q)"
    by (rule round_even_nonneg)
  then have "0 \<le> real_of_int (round_even (x / q)) * q"
    using \<open>0 < q\<close> by simp
  then show ?thesis
    using False assms by (simp add: fl64_def Let_def q_def [symmetric])
qed

lemma fl64_cases_nonpos:
  assumes "x \<le> 0"
  obtains y where "fl64 x = Num y" and "y \<le> 0" | "fl64 x = NInf"
  using fl64_nonpos [OF assms] by (cases "fl64 x") simp_all

lemma fl64_cases_nonneg:
  assumes "0 \<le> x"
  obtains y where "fl64 x = Num y" and "0 \<le> y" | "fl64 x = PInf"
  using fl64_nonneg [OF assms] by (cases "fl64 x") simp_all

lemma quantum_uminus: "quantum (- x) = quantum x"
  by (simp add: quantum_def)

lemma fl64_uminus: "fl64 (- x) = js_neg (fl64 x)"
  by (simp add: fl64_def Let_def quantum_uminus round_even_uminus abs_mult)

text \<open>
  The relative error of rounding: from \<open>tiny\<close> up, \<open>fl64\<close> returns an infinity or
  a double within one part in 2 to the power 53 of its argument.
\<close>

lemma tiny_pos: "0 < tiny"
  unfolding tiny_def by (rule zero_less_power_int) simp

lemma tiny_le_1: "tiny \<le> 1"
proof -
  have "(2::real) powi (- 1022) \<le> 2 powi 0"
    by (intro power_int_increasing) simp_all
  then show ?thesis
    by (simp only: tiny_def power_int_0_right)
qed


lemma floor_log2_normal:
  assumes "tiny \<le> x"
  shows "- 1022 \<le> \<lfloor>log 2 x\<rfloor>" and "2 powi \<lfloor>log 2 x\<rfloor> \<le> x"
proof -
  have pos: "0 < x"
    using assms tiny_pos by linarith
  have "\<lfloor>log 2 x\<rfloor> = \<lfloor>log 2 x\<rfloor>" ..
  then have b: "2 powr real_of_int \<lfloor>log 2 x\<rfloor> \<le> x"
    "x < 2 powr real_of_int (\<lfloor>log 2 x\<rfloor> + 1)"
    using floor_log_eq_powr_iff [of x 2 "\<lfloor>log 2 x\<rfloor>"] pos by simp_all
  have p: "(2::real) powr real_of_int k = 2 powi k" for k
    by (rule powr_real_of_int') simp_all
  from b(1) show "2 powi \<lfloor>log 2 x\<rfloor> \<le> x"
    by (simp only: p)
  show "- 1022 \<le> \<lfloor>log 2 x\<rfloor>"
  proof (rule ccontr)
    assume "\<not> - 1022 \<le> \<lfloor>log 2 x\<rfloor>"
    then have "\<lfloor>log 2 x\<rfloor> + 1 \<le> - 1022"
      by linarith
    then have "(2::real) powi (\<lfloor>log 2 x\<rfloor> + 1) \<le> 2 powi (- 1022)"
      by (intro power_int_increasing) simp_all
    with b(2) have "x < tiny"
      by (simp only: p tiny_def)
    with assms show False
      by simp
  qed
qed

lemma quantum_normal:
  assumes "tiny \<le> x"
  shows "quantum x \<le> x / 2 ^ 52"
proof -
  have pos: "0 < x"
    using assms tiny_pos by linarith
  have "max \<lfloor>log 2 x\<rfloor> (- 1022) = \<lfloor>log 2 x\<rfloor>"
    using floor_log2_normal(1) [OF assms] by simp
  then have "quantum x = 2 powi (\<lfloor>log 2 x\<rfloor> - 52)"
    using pos by (simp add: quantum_def)
  also have "\<dots> = 2 powi \<lfloor>log 2 x\<rfloor> / 2 ^ 52"
    by (simp add: power_int_diff)
  also have "\<dots> \<le> x / 2 ^ 52"
    using floor_log2_normal(2) [OF assms] by (simp add: divide_right_mono)
  finally show ?thesis .
qed

lemma fl64_normal:
  assumes "tiny \<le> x"
  obtains y where "fl64 x = Num y" and "\<bar>y - x\<bar> \<le> x / 2 ^ 53" | "fl64 x = PInf"
proof -
  have pos: "0 < x"
    using assms tiny_pos by linarith
  define q where "q = quantum x"
  define n where "n = round_even (x / q)"
  define y where "y = real_of_int n * q"
  have q: "0 < q"
    by (simp add: q_def quantum_pos)
  have "y - x = (real_of_int n - x / q) * q"
    using q by (simp add: y_def field_simps)
  then have "\<bar>y - x\<bar> = \<bar>real_of_int n - x / q\<bar> * q"
    using q by (simp add: abs_mult)
  also have "\<dots> \<le> 1 / 2 * q"
    using q round_even_close [of "x / q"] by (intro mult_right_mono) (simp_all add: n_def)
  also have "\<dots> \<le> 1 / 2 * (x / 2 ^ 52)"
    using quantum_normal [OF assms] by (simp add: q_def)
  finally have close: "\<bar>y - x\<bar> \<le> x / 2 ^ 53"
    by simp
  have "fl64 x = (if huge \<le> \<bar>y\<bar> then PInf else Num y)"
    using pos by (simp add: fl64_def Let_def y_def n_def q_def)
  with close that show ?thesis
    by (cases "huge \<le> \<bar>y\<bar>") simp_all
qed


text \<open>From \<open>huge\<close> up the result has overflowed; half of \<open>huge\<close> is a double.\<close>

lemma huge_powi: "huge = 2 powi 1024"
  by (simp only: huge_def power_int_numeral)

lemma tiny_le_huge: "tiny \<le> huge"
  unfolding tiny_def huge_powi by (rule power_int_increasing) simp_all

lemma fl64_overflow:
  assumes "huge \<le> x"
  shows "fl64 x = PInf"
proof -
  have t: "tiny \<le> x"
    using tiny_le_huge assms by (rule order_trans)
  have pos: "0 < x"
    using t tiny_pos by linarith
  define e where "e = \<lfloor>log 2 x\<rfloor>"
  have "log 2 huge \<le> log 2 x"
    using assms pos tiny_pos tiny_le_huge by (subst log_le_cancel_iff) simp_all
  moreover have "log 2 huge = 1024"
    unfolding huge_def by (simp only: log_nat_power [of 2 2 1024]) simp
  ultimately have "1024 \<le> log 2 x"
    by simp
  then have e: "1024 \<le> e"
    unfolding e_def by (simp add: le_floor_iff)
  have low: "2 powi e \<le> x"
    unfolding e_def by (rule floor_log2_normal(2) [OF t])
  have "max e (- 1022) = e"
    using e by simp
  then have q: "quantum x = 2 powi (e - 52)"
    using pos by (simp add: quantum_def e_def)
  have q0: "0 < quantum x"
    by (rule quantum_pos)
  define n where "n = round_even (x / quantum x)"
  have "2 powi e / quantum x \<le> x / quantum x"
    using low q0 by (simp add: divide_right_mono)
  moreover have "2 powi e / quantum x = (2::real) ^ 52"
    unfolding q by (simp add: power_int_diff)
  ultimately have z: "2 ^ 52 \<le> x / quantum x"
    by simp
  have "\<bar>real_of_int n - x / quantum x\<bar> \<le> 1 / 2"
    unfolding n_def by (rule round_even_close)
  with z have "2 ^ 52 - 1 / 2 \<le> real_of_int n"
    by (simp add: abs_le_iff, argo?)
  then have "real_of_int (2 ^ 52 - 1) < real_of_int n"
    by simp
  then have "(2 ^ 52 - 1 :: int) < n"
    by (simp only: of_int_less_iff)
  then have "(2 ^ 52 :: int) \<le> n"
    by simp
  then have n: "(2 ^ 52 :: real) \<le> real_of_int n"
    by (metis of_int_le_iff of_int_numeral of_int_power)
  have "huge \<le> 2 powi e"
    unfolding huge_powi using e by (intro power_int_increasing) simp_all
  also have "\<dots> = 2 ^ 52 * quantum x"
    unfolding q by (simp add: power_int_diff)
  also have "\<dots> \<le> real_of_int n * quantum x"
    using n q0 by (intro mult_right_mono) simp_all
  finally have "huge \<le> \<bar>real_of_int n * quantum x\<bar>"
    by simp
  then show ?thesis
    using pos by (simp add: fl64_def Let_def n_def)
qed

lemma fl64_half_huge: "fl64 (huge / 2) = Num (huge / 2)"
proof (rule fl64_exact [where n = 1 and k = 1023])
  have "(2::real) powi (1023 + 1) = 2 powi 1023 * 2 powi 1"
    by (rule power_int_add) simp
  then show "huge / 2 = real_of_int 1 * 2 powi 1023"
    by (simp add: huge_powi)
  show "\<bar>1::int\<bar> < 2 ^ 53"
    by simp
  show "- 1074 \<le> (1023::int)"
    by simp
  have "0 < huge"
    using tiny_pos tiny_le_huge by linarith
  then show "\<bar>huge / 2\<bar> < huge"
    by simp
qed

section \<open>Roundings of particular numbers\<close>

text \<open>
  The doubles that the examples below meet: a half and a few other binary fractions,
  which are exact, and the roundings of a third, a thirtieth, a hundredth and their
  products and sums.
\<close>

lemma fl64_half: "fl64 (1 / 2) = Num (1 / 2)"
  by (rule fl64_exact_small [where n = 1 and k = "- 1"])
    (simp_all add: power_int_minus)

lemma fl64_3_2: "fl64 (3 / 2) = Num (3 / 2)"
  by (rule fl64_exact_small [where n = 3 and k = "- 1"])
    (simp_all add: power_int_minus)

lemma fl64_9_4: "fl64 (9 / 4) = Num (9 / 4)"
  by (rule fl64_exact_small [where n = 9 and k = "- 2"])
    (simp_all add: power_int_minus)

lemma fl64_5_4: "fl64 (5 / 4) = Num (5 / 4)"
  by (rule fl64_exact_small [where n = 5 and k = "- 2"])
    (simp_all add: power_int_minus)

lemma fl64_third: "fl64 (1 / 3) = Num (6004799503160661 / 18014398509481984)"
proof -
  have "fl64 (1 / 3) = Num (real_of_int 6004799503160661 * 2 powi (- 2 - 52))"
    by (rule fl64_round) (simp_all add: power_int_minus field_simps)
  then show ?thesis
    by (simp add: power_int_minus field_simps)
qed

lemma fl64_third_double: "fl64 (6004799503160661 / 18014398509481984) = Num (6004799503160661 / 18014398509481984)"
  by (rule fl64_exact_small [where n = 6004799503160661 and k = "- 54"])
    (simp_all add: power_int_minus)











lemma fl64_100th: "fl64 (1 / 100) = Num (5764607523034235 / 576460752303423488)"
proof -
  have "fl64 (1 / 100) = Num (real_of_int 5764607523034235 * 2 powi (- 7 - 52))"
    by (rule fl64_round) (simp_all add: power_int_minus field_simps)
  then show ?thesis
    by (simp add: power_int_minus field_simps)
qed











text \<open>
  The steps of the month count, the simple interest and its total for a principal of
  250 at 1 percent over 14 days.
\<close>

lemma fl64_7_15th: "fl64 (7 / 15) = Num (4203359652212463 / 9007199254740992)"
proof -
  have "fl64 (7 / 15) = Num (real_of_int 8406719304424926 * 2 powi (- 2 - 52))"
    by (rule fl64_round) (simp_all add: power_int_minus field_simps)
  then show ?thesis
    by (simp add: power_int_minus field_simps)
qed

lemma fl64_7_15th_double: "fl64 (4203359652212463 / 9007199254740992) = Num (4203359652212463 / 9007199254740992)"
  by (rule fl64_exact_small [where n = 4203359652212463 and k = "- 53"])
    (simp_all add: power_int_minus)

lemma fl64_7_15th_100: "fl64 (105083991305311575 / 2251799813685248) = Num (6567749456581973 / 140737488355328)"
proof -
  have "fl64 (105083991305311575 / 2251799813685248) = Num (real_of_int 6567749456581973 * 2 powi (5 - 52))"
    by (rule fl64_round) (simp_all add: power_int_minus field_simps)
  then show ?thesis
    by (simp add: power_int_minus field_simps)
qed

lemma fl64_47_100th: "fl64 (47 / 100) = Num (2116691824864133 / 4503599627370496)"
proof -
  have "fl64 (47 / 100) = Num (real_of_int 8466767299456532 * 2 powi (- 2 - 52))"
    by (rule fl64_round) (simp_all add: power_int_minus field_simps)
  then show ?thesis
    by (simp add: power_int_minus field_simps)
qed

lemma fl64_250_100th: "fl64 (720575940379279375 / 288230376151711744) = Num (5 / 2)"
proof -
  have "fl64 (720575940379279375 / 288230376151711744) = Num (real_of_int 5629499534213120 * 2 powi (1 - 52))"
    by (rule fl64_round) (simp_all add: power_int_minus field_simps)
  then show ?thesis
    by (simp add: power_int_minus field_simps)
qed

lemma fl64_5_2_47_100th: "fl64 (10583459124320665 / 9007199254740992) = Num (1322932390540083 / 1125899906842624)"
proof -
  have "fl64 (10583459124320665 / 9007199254740992) = Num (real_of_int 5291729562160332 * 2 powi (0 - 52))"
    by (rule fl64_tie) (simp_all add: power_int_minus field_simps)
  then show ?thesis
    by (simp add: power_int_minus field_simps)
qed

lemma fl64_simple_100: "fl64 (33073309763502075 / 281474976710656) = Num (8268327440875519 / 70368744177664)"
proof -
  have "fl64 (33073309763502075 / 281474976710656) = Num (real_of_int 8268327440875519 * 2 powi (6 - 52))"
    by (rule fl64_round) (simp_all add: power_int_minus field_simps)
  then show ?thesis
    by (simp add: power_int_minus field_simps)
qed

lemma fl64_117_100th: "fl64 (117 / 100) = Num (658651445502935 / 562949953421312)"
proof -
  have "fl64 (117 / 100) = Num (real_of_int 5269211564023480 * 2 powi (0 - 52))"
    by (rule fl64_round) (simp_all add: power_int_minus field_simps)
  then show ?thesis
    by (simp add: power_int_minus field_simps)
qed

lemma fl64_250_117_100th: "fl64 (141396139800830935 / 562949953421312) = Num (8837258737551933 / 35184372088832)"
proof -
  have "fl64 (141396139800830935 / 562949953421312) = Num (real_of_int 8837258737551933 * 2 powi (7 - 52))"
    by (rule fl64_round) (simp_all add: power_int_minus field_simps)
  then show ?thesis
    by (simp add: power_int_minus field_simps)
qed

lemma fl64_total_100: "fl64 (220931468438798325 / 8796093022208) = Num (25117)"
proof -
  have "fl64 (220931468438798325 / 8796093022208) = Num (real_of_int 6904108388712448 * 2 powi (14 - 52))"
    by (rule fl64_round) (simp_all add: power_int_minus field_simps)
  then show ?thesis
    by (simp add: power_int_minus field_simps)
qed

lemma fl64_25117_100th: "fl64 (25117 / 100) = Num (8837258737551933 / 35184372088832)"
proof -
  have "fl64 (25117 / 100) = Num (real_of_int 8837258737551933 * 2 powi (7 - 52))"
    by (rule fl64_round) (simp_all add: power_int_minus field_simps)
  then show ?thesis
    by (simp add: power_int_minus field_simps)
qed

section \<open>Facts about the formulas\<close>

text \<open>Rounding to two decimals keeps a value at or below 0 there.\<close>

lemma round2_nonpositive:
  assumes "js_le a (Num 0)"
  shows "js_le (round2 a) (Num 0)"
proof (cases a)
  case (Num x)
  with assms have "x * 100 \<le> 0" by simp
  then show ?thesis
  proof (cases rule: fl64_cases_nonpos)
    case (1 y)
    then have "real_of_int \<lfloor>y + 1 / 2\<rfloor> / 100 \<le> 0"
      by (simp add: floor_le_iff)
    then have "js_le (fl64 (real_of_int \<lfloor>y + 1 / 2\<rfloor> / 100)) (Num 0)"
      by (rule fl64_nonpos)
    with Num 1 show ?thesis
      by (simp add: round2_def)
  next
    case 2
    with Num show ?thesis
      by (simp add: round2_def)
  qed
qed (use assms in \<open>simp_all add: round2_def\<close>)



text \<open>
  For a rate of at least 0 the base of the power, \<^verbatim>\<open>1 + rate / 100\<close>, is above 0, and
  \<^verbatim>\<open>Math.pow\<close> is the real power, rounded.
\<close>

lemma Math_pow_real_power:
  assumes "0 \<le> r" and "m \<noteq> 0"
    and "js_add (Num 1) (js_div (Num r) (Num 100)) = Num b"
  shows "0 < b \<and> js_pow (Num b) (Num m) = fl64 (b powr m)"
proof -
  have "0 \<le> r / 100"
    using assms(1) by simp
  then show ?thesis
  proof (cases rule: fl64_cases_nonneg)
    case (1 d)
    then have b: "fl64 (1 + d) = Num b"
      using assms(3) by simp
    have "tiny \<le> 1 + d"
      using tiny_le_1 1(2) by linarith
    then show ?thesis
    proof (cases rule: fl64_normal)
      case (1 y)
      with b have "\<bar>b - (1 + d)\<bar> \<le> (1 + d) / 2 ^ 53"
        by simp
      then have "(1 + d) - (1 + d) / 2 ^ 53 \<le> b"
        by linarith
      moreover have "0 < (1 + d) - (1 + d) / 2 ^ 53"
        using \<open>0 \<le> d\<close> by (simp add: field_simps)
      ultimately have "0 < b"
        by linarith
      then show ?thesis
        using assms(2) by simp
    next
      case 2
      with b show ?thesis by simp
    qed
  next
    case 2
    with assms(3) show ?thesis by simp
  qed
qed

section \<open>Facts about the history\<close>


lemma set_update_first:
  assumes "find P xs = Some a" and "x \<in> set (update_first P f xs)"
  shows "x \<in> set xs \<or> x = f a"
  using assms by (induction xs) (auto split: if_splits)

text \<open>
  A record that \<^verbatim>\<open>addInvestment\<close> adds is the pending record of the form, whose
  principal and rate passed the checks; a record that \<^verbatim>\<open>calculateInterest\<close> changes
  gets its end date and all its derived fields from one month count.
\<close>

lemma addInvestment_new_record:
  assumes "x \<in> set (history (fst (addInvestment f now stamp st)))" and "x \<notin> set (history st)"
  shows "\<not> js_not (principal_input f) \<and> \<not> js_not (rate_input f)
         \<and> x = \<lparr>inv_id = now, name = name_input f, principal = principal_input f,
            rate = rate_input f, startDate = startDate_input f, endDate = None,
            months = Num 0, simpleInterest = Num 0, compoundInterest = Num 0,
            totalSimple = principal_input f, totalCompound = principal_input f,
            calculationDate = stamp\<rparr>"
  using assms
  by (auto simp: addInvestment_def addToHistory_def Let_def split: if_splits dest: in_set_takeD)

lemma calculateInterest_history:
  assumes "x \<in> set (history (fst (calculateInterest e stamp st)))" and "x \<notin> set (history st)"
  shows "\<exists>investment \<in> set (history st). 
           x = investment\<lparr>endDate := e, 
                 months := monthsBetween (startDate investment) e,
                 simpleInterest := simpleInterest_of (principal investment) (rate investment)
                    (monthsBetween (startDate investment) e),
                 compoundInterest := compoundInterest_of (principal investment) (rate investment)
                    (monthsBetween (startDate investment) e),
                 totalSimple := total_of (principal investment)
                    (simpleInterest_of (principal investment) (rate investment)
                       (monthsBetween (startDate investment) e)),
                 totalCompound := total_of (principal investment)
                    (compoundInterest_of (principal investment) (rate investment)
                       (monthsBetween (startDate investment) e)),
                 calculationDate := stamp\<rparr>
           \<and> e \<noteq> None"
proof -
  from assms obtain investment where
    found: "find (\<lambda>inv. Some (inv_id inv) = currentEditId st) (history st) = Some investment"
    and e: "e \<noteq> None"
    and x: "x \<in> set (update_first (\<lambda>inv. Some (inv_id inv) = currentEditId st)
                 (\<lambda>inv. inv\<lparr>endDate := e, 
                   months := monthsBetween (startDate investment) e,
                   simpleInterest := simpleInterest_of (principal investment) (rate investment)
                      (monthsBetween (startDate investment) e),
                   compoundInterest := compoundInterest_of (principal investment)
                      (rate investment) (monthsBetween (startDate investment) e),
                   totalSimple := total_of (principal investment)
                      (simpleInterest_of (principal investment) (rate investment)
                         (monthsBetween (startDate investment) e)),
                   totalCompound := total_of (principal investment)
                      (compoundInterest_of (principal investment) (rate investment)
                         (monthsBetween (startDate investment) e)),
                   calculationDate := stamp\<rparr>)
                 (history st))"
    by (auto simp: calculateInterest_def Let_def split: if_splits option.splits)
  from found have "investment \<in> set (history st)"
    by (auto simp: find_Some_iff)
  with set_update_first [OF found x] assms(2) e show ?thesis
    by blast
qed

text \<open>
  In every state of the calculator, each record of the history is either pending or
  calculated, and its principal and rate are truthy numbers.
\<close>

lemma reachable_derived:
  assumes "reachable st"
  shows "\<forall>x \<in> set (history st).
           (derived_unset x \<or> derived_set x)
           \<and> \<not> js_not (principal x) \<and> \<not> js_not (rate x)"
  using assms
proof (induction rule: reachable.induct)
  case start
  show ?case by simp
next
  case (add st f now stamp)
  show ?case
  proof
    fix x assume x: "x \<in> set (history (fst (addInvestment f now stamp st)))"
    show "(derived_unset x \<or> derived_set x) \<and> \<not> js_not (principal x) \<and> \<not> js_not (rate x)"
    proof (cases "x \<in> set (history st)")
      case True
      with add.IH show ?thesis by blast
    next
      case False
      from addInvestment_new_record [OF x False] show ?thesis
        by (simp add: derived_unset_def)
    qed
  qed
next
  case (edit st i)
  then show ?case
    by (simp add: editInvestment_def split: option.splits)
next
  case (calc st e stamp)
  show ?case
  proof
    fix x assume x: "x \<in> set (history (fst (calculateInterest e stamp st)))"
    show "(derived_unset x \<or> derived_set x) \<and> \<not> js_not (principal x) \<and> \<not> js_not (rate x)"
    proof (cases "x \<in> set (history st)")
      case True
      with calc.IH show ?thesis by blast
    next
      case False
      from calculateInterest_history [OF x False] calc.IH show ?thesis
        by (auto simp: derived_set_def)
    qed
  qed
next
  case (clear st)
  show ?case by (simp add: clearHistory_def)
qed

section \<open>The month span\<close>

text \<open>
  C2. For two calendar dates with the end not before the start, \<open>monthsBetween\<close> is
  the whole-month difference (years times 12 plus the difference of the month indices)
  plus the day difference over 30, as JavaScript evaluates that sum: the quotient and
  the sum are rounded to doubles. The day difference may be negative, so the result may
  be fractional, and it may be 0 although the end is after the start.
\<close>

theorem monthsBetween_formula:
  assumes "\<not> date_before e s"
  shows "monthsBetween (Some s) (Some e) =
           js_add (Num (real_of_int ((getFullYear e - getFullYear s) * 12
                                      + (getMonth e - getMonth s))))
                  (js_div (Num (real_of_int (getDate e - getDate s))) (Num 30))"
  using assms by (simp add: Let_def)

text \<open>
  From 2024-01-31 to 2024-02-01 the span is 0 (one whole month less 30 days over 30);
  from 2024-01-01 to 2024-01-11 it is the double nearest to a third of a month.
\<close>

theorem monthsBetween_formula_witness:
  "\<not> date_before \<lparr>getFullYear = 2024, getMonth = 1, getDate = 1\<rparr>
                   \<lparr>getFullYear = 2024, getMonth = 0, getDate = 31\<rparr>
   \<and> monthsBetween (Some \<lparr>getFullYear = 2024, getMonth = 0, getDate = 31\<rparr>)
                     (Some \<lparr>getFullYear = 2024, getMonth = 1, getDate = 1\<rparr>) = Num 0
   \<and> \<not> date_before \<lparr>getFullYear = 2024, getMonth = 0, getDate = 11\<rparr>
                     \<lparr>getFullYear = 2024, getMonth = 0, getDate = 1\<rparr>
   \<and> monthsBetween (Some \<lparr>getFullYear = 2024, getMonth = 0, getDate = 1\<rparr>)
                     (Some \<lparr>getFullYear = 2024, getMonth = 0, getDate = 11\<rparr>)
       = Num (6004799503160661 / 2 ^ 54)"
proof -
  have a: "\<not> date_before \<lparr>getFullYear = 2024, getMonth = 1, getDate = 1\<rparr>
                          \<lparr>getFullYear = 2024, getMonth = 0, getDate = 31\<rparr>"
    by (simp add: date_before_def)
  have b: "\<not> date_before \<lparr>getFullYear = 2024, getMonth = 0, getDate = 11\<rparr>
                          \<lparr>getFullYear = 2024, getMonth = 0, getDate = 1\<rparr>"
    by (simp add: date_before_def)
  show ?thesis
    using a b monthsBetween_formula [OF a] monthsBetween_formula [OF b]
    by (simp add: fl64_uminus fl64_1 fl64_0 fl64_third fl64_third_double)
qed

text \<open>
  C5. When the end date is strictly earlier than the start date, \<open>monthsBetween\<close>
  returns exactly 0: the guard answers, not the day-fraction formula.
\<close>

theorem monthsBetween_inverted_range:
  "date_before e s \<Longrightarrow> monthsBetween (Some s) (Some e) = Num 0"
  by simp

text \<open>
  From 2024-01-01 back to 2023-12-01 the formula would give \<open>-1\<close>; the guard gives 0.
\<close>

theorem monthsBetween_inverted_range_witness:
  "date_before \<lparr>getFullYear = 2023, getMonth = 11, getDate = 1\<rparr>
               \<lparr>getFullYear = 2024, getMonth = 0, getDate = 1\<rparr>
   \<and> monthsBetween (Some \<lparr>getFullYear = 2024, getMonth = 0, getDate = 1\<rparr>)
                     (Some \<lparr>getFullYear = 2023, getMonth = 11, getDate = 1\<rparr>) = Num 0
   \<and> real_of_int ((2023 - 2024) * 12 + (11 - 0)) + real_of_int (1 - 1) / 30 = -1"
proof -
  have h: "date_before \<lparr>getFullYear = 2023, getMonth = 11, getDate = 1\<rparr>
                       \<lparr>getFullYear = 2024, getMonth = 0, getDate = 1\<rparr>"
    by (simp add: date_before_def)
  show ?thesis
    using h monthsBetween_inverted_range [OF h] by simp
qed




section \<open>The interest engine\<close>




text \<open>
  A large principal overflows: for 2 to the power 1023 at 100 percent over 3 months the
  simple interest and its total are \<^verbatim>\<open>Infinity\<close>.
\<close>

lemma simpleInterest_overflows:
  "simpleInterest_of (Num (huge / 2)) (Num 100) (Num 3) = PInf
   \<and> total_of (Num (huge / 2)) (simpleInterest_of (Num (huge / 2)) (Num 100) (Num 3)) = PInf"
proof -
  have "0 < huge"
    using tiny_pos tiny_le_huge by linarith
  then have "huge \<le> huge / 2 * 3"
    by simp
  then have "fl64 (huge / 2 * 3) = PInf"
    by (rule fl64_overflow)
  then show ?thesis
    by (simp add: simpleInterest_of_def total_of_def fl64_1 fl64_half_huge)
qed










section \<open>Rejected calculations\<close>

text \<open>
  C7. When the end date field is empty, or the end date is before the start date of the
  selected record, or the month count is at or below 0, \<^verbatim>\<open>calculateInterest\<close> shows an
  error and leaves the calculator as it was: the history, every field of every record
  in it, and the selection.
\<close>

theorem calculateInterest_rejects:
  assumes "endDate_input = None
     \<or> (\<exists>investment.
           find (\<lambda>inv. Some (inv_id inv) = currentEditId st) (history st) = Some investment
           \<and> (date_lt endDate_input (startDate investment)
              \<or> js_le (monthsBetween (startDate investment) endDate_input) (Num 0)))"
  shows "fst (calculateInterest endDate_input stamp st) = st
         \<and> (\<exists>msg. snd (calculateInterest endDate_input stamp st) = Modal msg Error)"
  using assms by (auto simp: calculateInterest_def Let_def)

text \<open>
  From 2024-01-31 to 2024-02-01 the month count is 0, and the record stays pending.
\<close>

theorem calculateInterest_rejects_witness:
  "js_le (monthsBetween (Some \<lparr>getFullYear = 2024, getMonth = 0, getDate = 31\<rparr>)
                         (Some \<lparr>getFullYear = 2024, getMonth = 1, getDate = 1\<rparr>)) (Num 0)
   \<and> fst (calculateInterest (Some \<lparr>getFullYear = 2024, getMonth = 1, getDate = 1\<rparr>) ''now''
        \<lparr>history =
           [\<lparr>inv_id = 1, name = ''A'', principal = Num 10000, rate = Num 5,
             startDate = Some \<lparr>getFullYear = 2024, getMonth = 0, getDate = 31\<rparr>,
             endDate = None, months = Num 0, simpleInterest = Num 0,
             compoundInterest = Num 0, totalSimple = Num 10000, totalCompound = Num 10000,
             calculationDate = ''then''\<rparr>],
         currentEditId = Some 1\<rparr>)
     = \<lparr>history =
           [\<lparr>inv_id = 1, name = ''A'', principal = Num 10000, rate = Num 5,
             startDate = Some \<lparr>getFullYear = 2024, getMonth = 0, getDate = 31\<rparr>,
             endDate = None, months = Num 0, simpleInterest = Num 0,
             compoundInterest = Num 0, totalSimple = Num 10000, totalCompound = Num 10000,
             calculationDate = ''then''\<rparr>],
         currentEditId = Some 1\<rparr>"
proof -
  let ?inv = "\<lparr>inv_id = 1, name = ''A'', principal = Num 10000, rate = Num 5,
             startDate = Some \<lparr>getFullYear = 2024, getMonth = 0, getDate = 31\<rparr>,
             endDate = None, months = Num 0, simpleInterest = Num 0,
             compoundInterest = Num 0, totalSimple = Num 10000, totalCompound = Num 10000,
             calculationDate = ''then''\<rparr>"
  let ?st = "\<lparr>history = [?inv], currentEditId = Some 1\<rparr>"
  let ?e = "Some \<lparr>getFullYear = 2024, getMonth = 1, getDate = 1\<rparr>"
  have short: "js_le (monthsBetween (startDate ?inv) ?e) (Num 0)"
    by (simp add: date_before_def fl64_uminus fl64_1 fl64_0)
  have "find (\<lambda>inv. Some (inv_id inv) = currentEditId ?st) (history ?st) = Some ?inv"
    by simp
  with short have "?e = None
     \<or> (\<exists>investment.
           find (\<lambda>inv. Some (inv_id inv) = currentEditId ?st) (history ?st) = Some investment
           \<and> (date_lt ?e (startDate investment)
              \<or> js_le (monthsBetween (startDate investment) ?e) (Num 0)))"
    by blast
  from calculateInterest_rejects [OF this, of "''now''"] short show ?thesis
    by simp
qed

text \<open>
  The database-backed script sends no request in these cases and leaves its state as it
  was: the month count it tests is rounded, and stays at or below 0.
\<close>

lemma calculateInterest_db_rejects:
  assumes "endDate_input = None
     \<or> (\<exists>investment.
           find (\<lambda>inv. Some (row_id inv) = db_currentEditId st) (db_history st)
             = Some investment
           \<and> (date_lt endDate_input (start_date investment)
              \<or> js_le (monthsBetween (start_date investment) endDate_input) (Num 0)))"
  shows "\<exists>msg. calculateInterest_db endDate_input t stamp response reply st
           = (st, CalcRejected (Modal msg Error))"
  using assms by (auto simp: calculateInterest_db_def Let_def round2_nonpositive)

section \<open>Record creation\<close>

text \<open>
  C8. Record creation should accept a rate of exactly 0. The scripts test \<^verbatim>\<open>!rate\<close>
  before \<^verbatim>\<open>rate < 0\<close>, and \<^verbatim>\<open>!rate\<close> is true for 0: a form with the name A, the
  principal 1000, the rate 0 and the start date 2024-01-01 is rejected by all three
  scripts.
\<close>

theorem zero_rate_is_rejected:
  "addInvestment
     \<lparr>name_input = ''A'', principal_input = Num 1000, rate_input = Num 0,
      startDate_input = Some \<lparr>getFullYear = 2024, getMonth = 0, getDate = 1\<rparr>\<rparr> now stamp st
     = (st, Modal ''Please enter a valid interest rate (per month).'' Error)
   \<and> validateStepOne
     \<lparr>name_input = ''A'', principal_input = Num 1000, rate_input = Num 0,
      startDate_input = Some \<lparr>getFullYear = 2024, getMonth = 0, getDate = 1\<rparr>\<rparr>
     = (False, Some (Modal ''Please enter a valid interest rate (per month).'' Error))
   \<and> addInvestment_db
     \<lparr>name_input = ''A'', principal_input = Num 1000, rate_input = Num 0,
      startDate_input = Some \<lparr>getFullYear = 2024, getMonth = 0, getDate = 1\<rparr>,
      interestType_input = ''taken''\<rparr> now stamp
     = AddRejected (Modal ''Please enter a valid interest rate (per month).'' Error)"
  by (simp add: addInvestment_def validateStepOne_def addInvestment_db_def)

text \<open>
  What \<^verbatim>\<open>addInvestment\<close> accepts: a name, a principal above 0, a rate above 0 and a
  start date.
\<close>

lemma addInvestment_accepts_iff:
  "snd (addInvestment f now stamp st)
     = Modal ''Investment added successfully! Add an ending date to calculate interest.'' Success
   \<longleftrightarrow> name_input f \<noteq> [] \<and> js_lt (Num 0) (principal_input f)
       \<and> js_lt (Num 0) (rate_input f) \<and> startDate_input f \<noteq> None"
  by (cases "principal_input f"; cases "rate_input f")
    (auto simp: addInvestment_def)

text \<open>
  C10. A form whose principal or rate field parsed to \<^verbatim>\<open>NaN\<close> is rejected with an
  error and the calculator stays as it was; and in every state of the calculator no
  record of the history has a \<^verbatim>\<open>NaN\<close> principal or rate, so \<^verbatim>\<open>calculateInterest\<close>
  never reads one.
\<close>

theorem NaN_never_stored:
  assumes "principal_input f = NaN \<or> rate_input f = NaN" and "reachable st"
  shows "fst (addInvestment f now stamp st) = st
         \<and> (\<exists>msg. snd (addInvestment f now stamp st) = Modal msg Error)
         \<and> (\<forall>investment \<in> set (history st).
               principal investment \<noteq> NaN \<and> rate investment \<noteq> NaN)"
proof -
  have "fst (addInvestment f now stamp st) = st
        \<and> (\<exists>msg. snd (addInvestment f now stamp st) = Modal msg Error)"
    using assms(1) by (auto simp: addInvestment_def)
  moreover have "\<forall>investment \<in> set (history st).
      principal investment \<noteq> NaN \<and> rate investment \<noteq> NaN"
    using reachable_derived [OF assms(2)] by auto
  ultimately show ?thesis by blast
qed

text \<open>
  After one investment is added, a form with an empty principal field changes nothing.
\<close>

theorem NaN_never_stored_witness:
  "reachable (fst (addInvestment
       \<lparr>name_input = ''A'', principal_input = Num 10000, rate_input = Num 5,
        startDate_input = Some \<lparr>getFullYear = 2024, getMonth = 0, getDate = 1\<rparr>\<rparr>
       1 ''then'' \<lparr>history = [], currentEditId = None\<rparr>))
   \<and> fst (addInvestment
       \<lparr>name_input = ''B'', principal_input = NaN, rate_input = Num 5,
        startDate_input = Some \<lparr>getFullYear = 2024, getMonth = 0, getDate = 1\<rparr>\<rparr>
       2 ''now''
       (fst (addInvestment
          \<lparr>name_input = ''A'', principal_input = Num 10000, rate_input = Num 5,
           startDate_input = Some \<lparr>getFullYear = 2024, getMonth = 0, getDate = 1\<rparr>\<rparr>
          1 ''then'' \<lparr>history = [], currentEditId = None\<rparr>)))
     = \<lparr>history =
          [\<lparr>inv_id = 1, name = ''A'', principal = Num 10000, rate = Num 5,
            startDate = Some \<lparr>getFullYear = 2024, getMonth = 0, getDate = 1\<rparr>,
            endDate = None, months = Num 0, simpleInterest = Num 0,
            compoundInterest = Num 0, totalSimple = Num 10000, totalCompound = Num 10000,
            calculationDate = ''then''\<rparr>],
        currentEditId = None\<rparr>"
proof -
  let ?f = "\<lparr>name_input = ''B'', principal_input = NaN, rate_input = Num 5,
        startDate_input = Some \<lparr>getFullYear = 2024, getMonth = 0, getDate = 1\<rparr>\<rparr>"
  let ?st = "fst (addInvestment
       \<lparr>name_input = ''A'', principal_input = Num 10000, rate_input = Num 5,
        startDate_input = Some \<lparr>getFullYear = 2024, getMonth = 0, getDate = 1\<rparr>\<rparr>
       1 ''then'' \<lparr>history = [], currentEditId = None\<rparr>)"
  have nan: "principal_input ?f = NaN \<or> rate_input ?f = NaN"
    by simp
  have reach: "reachable ?st"
    by (intro reachable.add reachable.start)
  have st: "?st = \<lparr>history =
          [\<lparr>inv_id = 1, name = ''A'', principal = Num 10000, rate = Num 5,
            startDate = Some \<lparr>getFullYear = 2024, getMonth = 0, getDate = 1\<rparr>,
            endDate = None, months = Num 0, simpleInterest = Num 0,
            compoundInterest = Num 0, totalSimple = Num 10000, totalCompound = Num 10000,
            calculationDate = ''then''\<rparr>],
        currentEditId = None\<rparr>"
    by (simp add: addInvestment_def addToHistory_def)
  from NaN_never_stored [OF nan reach, of 2 "''now''"] have "fst (addInvestment ?f 2 ''now'' ?st) = ?st"
    by blast
  with reach st show ?thesis
    by simp
qed

text \<open>
  The two-step script and the database-backed script reject such a form as well.
\<close>

lemma NaN_rejected_elsewhere:
  assumes "principal_input f = NaN \<or> rate_input f = NaN"
  shows "fst (validateStepOne f) = False"
    and "principal_input g = principal_input f \<Longrightarrow> rate_input g = rate_input f
         \<Longrightarrow> \<exists>msg. addInvestment_db g now stamp = AddRejected msg"
  using assms by (auto simp: validateStepOne_def addInvestment_db_def)

section \<open>Derived fields of a record\<close>

text \<open>
  C4, as amended. In every state of the calculator, a record with no end date has the
  month count and both interests 0 and both totals equal to its principal; a record
  with an end date has all five derived fields set from that end date: the month count
  of the period, the two interests of that count, and the two totals.
\<close>

theorem derived_fields_together:
  assumes "reachable st" and "investment \<in> set (history st)"
  shows "if endDate investment = None then derived_unset investment else derived_set investment"
  using reachable_derived [OF assms(1)] assms(2)
  by (auto simp: derived_unset_def derived_set_def)

text \<open>
  Adding an investment, selecting it and calculating to 2024-03-01 leaves one record,
  with all its derived fields set.
\<close>

theorem derived_fields_together_witness:
  "reachable (fst (calculateInterest (Some \<lparr>getFullYear = 2024, getMonth = 2, getDate = 1\<rparr>) ''now''
       (editInvestment 1 (fst (addInvestment
          \<lparr>name_input = ''A'', principal_input = Num 1000, rate_input = Num 50,
           startDate_input = Some \<lparr>getFullYear = 2024, getMonth = 0, getDate = 1\<rparr>\<rparr>
          1 ''then'' \<lparr>history = [], currentEditId = None\<rparr>)))))
   \<and> history (fst (calculateInterest (Some \<lparr>getFullYear = 2024, getMonth = 2, getDate = 1\<rparr>) ''now''
       (editInvestment 1 (fst (addInvestment
          \<lparr>name_input = ''A'', principal_input = Num 1000, rate_input = Num 50,
           startDate_input = Some \<lparr>getFullYear = 2024, getMonth = 0, getDate = 1\<rparr>\<rparr>
          1 ''then'' \<lparr>history = [], currentEditId = None\<rparr>)))))
     = [\<lparr>inv_id = 1, name = ''A'', principal = Num 1000, rate = Num 50,
            startDate = Some \<lparr>getFullYear = 2024, getMonth = 0, getDate = 1\<rparr>,
            endDate = Some \<lparr>getFullYear = 2024, getMonth = 2, getDate = 1\<rparr>,
            months = Num 2, simpleInterest = Num 1000,
            compoundInterest = Num 1250, totalSimple = Num 2000,
            totalCompound = Num 2250, calculationDate = ''now''\<rparr>]
   \<and> derived_set
        \<lparr>inv_id = 1, name = ''A'', principal = Num 1000, rate = Num 50,
            startDate = Some \<lparr>getFullYear = 2024, getMonth = 0, getDate = 1\<rparr>,
            endDate = Some \<lparr>getFullYear = 2024, getMonth = 2, getDate = 1\<rparr>,
            months = Num 2, simpleInterest = Num 1000,
            compoundInterest = Num 1250, totalSimple = Num 2000,
            totalCompound = Num 2250, calculationDate = ''now''\<rparr>"
proof -
  let ?st = "fst (calculateInterest (Some \<lparr>getFullYear = 2024, getMonth = 2, getDate = 1\<rparr>) ''now''
       (editInvestment 1 (fst (addInvestment
          \<lparr>name_input = ''A'', principal_input = Num 1000, rate_input = Num 50,
           startDate_input = Some \<lparr>getFullYear = 2024, getMonth = 0, getDate = 1\<rparr>\<rparr>
          1 ''then'' \<lparr>history = [], currentEditId = None\<rparr>))))"
  let ?inv = "\<lparr>inv_id = 1, name = ''A'', principal = Num 1000, rate = Num 50,
            startDate = Some \<lparr>getFullYear = 2024, getMonth = 0, getDate = 1\<rparr>,
            endDate = Some \<lparr>getFullYear = 2024, getMonth = 2, getDate = 1\<rparr>,
            months = Num 2, simpleInterest = Num 1000,
            compoundInterest = Num 1250, totalSimple = Num 2000,
            totalCompound = Num 2250, calculationDate = ''now''\<rparr>"
  have reach: "reachable ?st"
    by (intro reachable.calc reachable.edit reachable.add reachable.start)
  have hist: "history ?st = [?inv]"
    by (simp add: addInvestment_def addToHistory_def editInvestment_def calculateInterest_def
        date_before_def simpleInterest_of_def compoundInterest_of_def total_of_def js_sub_def
        Let_def fl64_0 fl64_1 fl64_numeral fl64_half fl64_3_2 fl64_9_4 fl64_5_4
        power2_eq_square)
  then have "?inv \<in> set (history ?st)"
    by simp
  from derived_fields_together [OF reach this] reach hist show ?thesis
    by simp
qed

text \<open>
  C4 as it is stated fails for the totals: the record \<^verbatim>\<open>addInvestment\<close> builds has no
  end date, and its two totals are the principal, not 0.
\<close>

theorem derived_fields_together_counterexample:
  "history (fst (addInvestment
       \<lparr>name_input = ''A'', principal_input = Num 10000, rate_input = Num 5,
        startDate_input = Some \<lparr>getFullYear = 2024, getMonth = 0, getDate = 1\<rparr>\<rparr>
       1 ''then'' \<lparr>history = [], currentEditId = None\<rparr>))
     = [\<lparr>inv_id = 1, name = ''A'', principal = Num 10000, rate = Num 5,
         startDate = Some \<lparr>getFullYear = 2024, getMonth = 0, getDate = 1\<rparr>,
         endDate = None, months = Num 0, simpleInterest = Num 0,
         compoundInterest = Num 0, totalSimple = Num 10000, totalCompound = Num 10000,
         calculationDate = ''then''\<rparr>]
   \<and> Num 10000 \<noteq> Num 0"
  by (simp add: addInvestment_def addToHistory_def)

section \<open>Rounding in the database-backed script\<close>




text \<open>
  The rounding of each operation decides the cent. For 250 at 1 percent from 2024-01-01
  to 2024-01-15 the month count sent is 0.47, and the product
  \<^verbatim>\<open>250 * (1 / 100) * 0.47\<close> is the double 1.1749999999999998, below 1.175: the
  simple interest sent is 1.17 and the total 251.17.
\<close>

lemma calculateInterest_db_rounds_down:
  "map_option (\<lambda>upd. (upd_months upd, upd_simpleInterest upd, upd_totalSimple upd))
     (put_body (snd (calculateInterest_db (Some \<lparr>getFullYear = 2024, getMonth = 0, getDate = 15\<rparr>) ''taken'' ''now'' None (Inl ''offline'')
        \<lparr>db_history =
            [\<lparr>row_id = 1, row_principal = Num 250, row_rate = Num 1,
             start_date = Some \<lparr>getFullYear = 2024, getMonth = 0, getDate = 1\<rparr>,
             simple_interest = NaN, compound_interest = NaN,
             total_simple = NaN, total_compound = NaN\<rparr>],
          db_currentEditId = Some 1,
          db_shown = \<lparr>res_simpleInterest = Num 0, res_compoundInterest = Num 0,
                     res_totalSimple = Num 0, res_totalCompound = Num 0\<rparr>\<rparr>)))
     = Some (js_div (Num 47) (Num 100), js_div (Num 117) (Num 100),
             js_div (Num 25117) (Num 100))
   \<and> simpleInterest_of (Num 250) (Num 1) (js_div (Num 47) (Num 100))
     = Num (1322932390540083 / 2 ^ 50)
   \<and> (1322932390540083 / 2 ^ 50 :: real) < 1175 / 1000"
  by (simp add: calculateInterest_db_def date_before_def round2_def simpleInterest_of_def
      total_of_def Let_def fl64_0 fl64_1 fl64_numeral fl64_100th
      fl64_7_15th fl64_7_15th_double fl64_7_15th_100 fl64_47_100th fl64_250_100th fl64_5_2_47_100th fl64_simple_100 fl64_117_100th fl64_250_117_100th fl64_total_100 fl64_25117_100th)

end
